theory Spec2Isabelle
  imports Main
begin

section \<open>Python values, errors and text helpers\<close>

text \<open>
  The module \<^verbatim>\<open>ykimusic.py\<close> defines two value classes, \<^verbatim>\<open>Pitch\<close> and
  \<^verbatim>\<open>Interval\<close>, built from text. Text is modelled as \<^typ>\<open>string\<close>; the regular
  expressions of the module only accept ASCII letters, \<^verbatim>\<open>#\<close>, \<^verbatim>\<open>b\<close> and digits, and
  \<^verbatim>\<open>\d\<close> is read as the ASCII digits. Python integers are \<^typ>\<open>int\<close>. The module needs
  Python 3.12 or later (the nested quotes of the f-string in \<^verbatim>\<open>Pitch.__str__\<close>), where
  \<^verbatim>\<open>int(s)\<close> raises \<^verbatim>\<open>ValueError\<close> on a text of more than 4300 digits, the default of
  \<^verbatim>\<open>sys.int_max_str_digits\<close>, which the module does not change. Every \<^verbatim>\<open>raise\<close> and every
  failing lookup is a value \<open>Inl e\<close>.
\<close>

datatype error =
    ValueError string
  | KeyError_str string
  | KeyError_int int
  | IndexError

text \<open>What a binary special method returns: a value, or \<^verbatim>\<open>NotImplemented\<close>.\<close>

datatype 'a dunder = Returned 'a | NotImplemented

definition is_digit :: "char \<Rightarrow> bool" where
  "is_digit c = (c \<in> set ''0123456789'')"

definition digit_val :: "char \<Rightarrow> int" where
  "digit_val c = int (of_char c) - 48"

text \<open>The decimal value of a string of digits.\<close>

definition int_of_str :: "string \<Rightarrow> int" where
  "int_of_str ds = foldl (\<lambda>a c. 10 * a + digit_val c) 0 ds"

definition digit_char :: "nat \<Rightarrow> char" where
  "digit_char n = ''0123456789'' ! (n mod 10)"

fun str_nat :: "nat \<Rightarrow> string" where
  "str_nat n = (if n < 10 then [digit_char n] else str_nat (n div 10) @ [digit_char n])"

declare str_nat.simps [simp del]

text \<open>\<^verbatim>\<open>str(n)\<close> for an integer, as an f-string renders it.\<close>

definition str_int :: "int \<Rightarrow> string" where
  "str_int n = (if n < 0 then CHR ''-'' # str_nat (nat (- n)) else str_nat (nat n))"

text \<open>
  \<^verbatim>\<open>int(s)\<close> on a string of decimal digits: the decimal value, unless the string has more
  digits than the interpreter's limit (leading zeros count), which raises.
\<close>

definition int_max_str_digits :: nat where
  "int_max_str_digits = 4300"

definition int_limit_error :: "nat \<Rightarrow> error" where
  "int_limit_error n =
     ValueError (''Exceeds the limit (4300 digits) for integer string conversion: value has ''
                 @ str_nat n @ '' digits; use sys.set_int_max_str_digits() to increase the limit'')"

definition py_int :: "string \<Rightarrow> error + int" where
  "py_int ds =
     (if length ds > int_max_str_digits then Inl (int_limit_error (length ds))
      else Inr (int_of_str ds))"

text \<open>An optional text inside an f-string: \<^verbatim>\<open>None\<close> renders as its name.\<close>

definition fmt_text :: "string option \<Rightarrow> string" where
  "fmt_text v = (case v of None \<Rightarrow> ''None'' | Some s \<Rightarrow> s)"

text \<open>A text between single quotes, as the error messages show the offending input.\<close>

definition quoted :: "string \<Rightarrow> string" where
  "quoted s = CHR 0x27 # s @ [CHR 0x27]"

text \<open>\<^verbatim>\<open>str.upper()\<close> on one character.\<close>

definition upper :: "char \<Rightarrow> char" where
  "upper c = (case map_of (zip ''abcdefghijklmnopqrstuvwxyz'' ''ABCDEFGHIJKLMNOPQRSTUVWXYZ'') c of
                None \<Rightarrow> c | Some u \<Rightarrow> u)"

text \<open>\<^verbatim>\<open>list.index(x)\<close>: the first position of \<open>x\<close>, or nothing.\<close>

fun index_of :: "'a \<Rightarrow> 'a list \<Rightarrow> nat option" where
  "index_of x [] = None"
| "index_of x (y # ys) = (if x = y then Some 0 else map_option Suc (index_of x ys))"

text \<open>
  \<^verbatim>\<open>xs[i]\<close> on a list: a negative index counts from the end, and an index outside the
  list raises.
\<close>

definition list_item :: "'a list \<Rightarrow> int \<Rightarrow> error + 'a" where
  "list_item xs i =
     (if 0 \<le> i \<and> i < int (length xs) then Inr (xs ! nat i)
      else if - int (length xs) \<le> i \<and> i < 0 then Inr (xs ! nat (int (length xs) + i))
      else Inl IndexError)"

section \<open>Interval\<close>

record Interval =
  Interval_accidental :: char
  Interval_degree :: int

text \<open>
  The first character class of \<^verbatim>\<open>([Mm+-ADP])(\d+)\<close>: the letters \<^verbatim>\<open>M\<close>, \<^verbatim>\<open>m\<close>,
  \<^verbatim>\<open>D\<close>, \<^verbatim>\<open>P\<close> and the range from \<^verbatim>\<open>+\<close> (code 43) to \<^verbatim>\<open>A\<close> (code 65), since
  \<^verbatim>\<open>+-A\<close> inside brackets is a range.
\<close>

definition quality_char :: "char \<Rightarrow> bool" where
  "quality_char c =
     (c = CHR ''M'' \<or> c = CHR ''m'' \<or> (43 \<le> (of_char c :: nat) \<and> (of_char c :: nat) \<le> 65)
      \<or> c = CHR ''D'' \<or> c = CHR ''P'')"

definition Interval_parse :: "string option \<Rightarrow> error + (char \<times> int) option" where
  "Interval_parse name =
     (case name of
        None \<Rightarrow> Inl (ValueError ''name cannot be None'')
      | Some [] \<Rightarrow> Inr None
      | Some (q # ds) \<Rightarrow>
          if \<not> (quality_char q \<and> ds \<noteq> [] \<and> list_all is_digit ds) then Inr None
          else
            (let accidental = (if q = CHR ''+'' then CHR ''A''
                               else if q = CHR ''-'' then CHR ''D'' else q)
             in (case py_int ds of
                   Inl e \<Rightarrow> Inl e
                 | Inr degree \<Rightarrow>
                     if degree mod 7 \<notin> {1, 4, 5} \<and> accidental = CHR ''P'' then Inr None
                     else Inr (Some (accidental, degree)))))"

definition Interval_init :: "string option \<Rightarrow> error + Interval" where
  "Interval_init v =
     (case Interval_parse v of
        Inl e \<Rightarrow> Inl e
      | Inr None \<Rightarrow> Inl (ValueError (''Invalid interval '' @ quoted (fmt_text v)))
      | Inr (Some (accidental, degree)) \<Rightarrow>
          Inr \<lparr>Interval_accidental = accidental, Interval_degree = degree\<rparr>)"

text \<open>The table \<^verbatim>\<open>map\<close> inside \<^verbatim>\<open>Interval.step\<close>.\<close>

definition map_table :: "int \<Rightarrow> int option" where
  "map_table = map_of [(1, 0), (4, 5), (5, 7), (2, 2), (3, 4), (6, 9), (7, 11), (8, 12)]"

text \<open>
  \<^verbatim>\<open>Interval.step\<close>. The message of the last \<^verbatim>\<open>raise\<close> holds the default rendering of
  the object, which is left out.
\<close>

definition Interval_step :: "Interval \<Rightarrow> error + int" where
  "Interval_step self =
     (let octaves = Interval_degree self div 7 - 1;
          mod_degree = (if Interval_degree self > 8 then (Interval_degree self - 8) mod 7
                        else Interval_degree self)
      in (case map_table mod_degree of
            None \<Rightarrow> Inl (KeyError_int mod_degree)
          | Some base \<Rightarrow>
              (let res = base + octaves * 12
               in if mod_degree \<in> {1, 4, 5, 8} then
                    (if Interval_accidental self = CHR ''P'' then Inr res
                     else if Interval_accidental self = CHR ''A'' then Inr (res + 1)
                     else Inr (res - 1))
                  else if Interval_accidental self = CHR ''M'' then Inr res
                  else if Interval_accidental self = CHR ''m'' then Inr (res - 1)
                  else if Interval_accidental self = CHR ''A'' then Inr (res + 1)
                  else if Interval_accidental self = CHR ''D'' then Inr (res - 2)
                  else Inl (ValueError ''cant get step''))))"

definition single_octave :: "Interval \<Rightarrow> error + Interval" where
  "single_octave self =
     (if Interval_degree self \<le> 8 then Inr self
      else Interval_init
             (Some (Interval_accidental self # str_int ((Interval_degree self - 8) mod 7))))"

section \<open>Pitch\<close>

text \<open>
  The letter is one character. The accidental is the second group of the pattern
  \<^verbatim>\<open>([CDEFGABcdefgab])(#*|b*)([0-7])?\<close>, which takes part in every match, so it is always
  a text (possibly empty) and the branch \<^verbatim>\<open>self.accidental is None\<close> of \<^verbatim>\<open>Pitch.step\<close>
  is never taken. The octave is absent when the third group did not match; when it did,
  it is one digit, which \<^verbatim>\<open>int\<close> always converts.
\<close>

record Pitch =
  Pitch_letter :: char
  Pitch_accidental :: string
  Pitch_octave :: "int option"

text \<open>What may stand on the right of an operator.\<close>

datatype pyval = PitchV Pitch | IntervalV Interval | StrV string | OtherV

definition LETTER_STEP :: "char \<Rightarrow> int option" where
  "LETTER_STEP = map_of [(CHR ''C'', 0), (CHR ''D'', 2), (CHR ''E'', 4), (CHR ''F'', 5),
                         (CHR ''G'', 7), (CHR ''A'', 9), (CHR ''B'', 11)]"

definition LETTERS :: "char list" where
  "LETTERS = ''CDEFGAB''"

text \<open>
  The rest of the text after the letter must be a run of \<^verbatim>\<open>#\<close> or a run of \<^verbatim>\<open>b\<close>,
  then at most one digit from 0 to 7, and nothing else. Neither run can stop early, since
  what follows it has to be a digit or the end of the text.
\<close>

definition Pitch_parse :: "string option \<Rightarrow> error + (char \<times> string \<times> int option) option" where
  "Pitch_parse name =
     (case name of
        None \<Rightarrow> Inl (ValueError ''name cannot be None'')
      | Some [] \<Rightarrow> Inr None
      | Some (l # rest) \<Rightarrow>
          if l \<notin> set ''CDEFGABcdefgab'' then Inr None
          else
            let sharps = takeWhile (\<lambda>c. c = CHR ''#'') rest;
                accidental = (if sharps \<noteq> [] then sharps
                              else takeWhile (\<lambda>c. c = CHR ''b'') rest);
                tail = drop (length accidental) rest
            in (case tail of
                  [] \<Rightarrow> Inr (Some (upper l, accidental, None))
                | [d] \<Rightarrow> (if d \<in> set ''01234567''
                          then Inr (Some (upper l, accidental, Some (int_of_str [d])))
                          else Inr None)
                | _ \<Rightarrow> Inr None))"

definition Pitch_init :: "string option \<Rightarrow> error + Pitch" where
  "Pitch_init v =
     (case Pitch_parse v of
        Inl e \<Rightarrow> Inl e
      | Inr None \<Rightarrow> Inl (ValueError (''Invalid pitch '' @ quoted (fmt_text v)))
      | Inr (Some (letter, accidental, octave)) \<Rightarrow>
          Inr \<lparr>Pitch_letter = letter, Pitch_accidental = accidental, Pitch_octave = octave\<rparr>)"

definition Pitch_step :: "Pitch \<Rightarrow> error + int" where
  "Pitch_step self =
     (case LETTER_STEP (Pitch_letter self) of
        None \<Rightarrow> Inl (KeyError_str [Pitch_letter self])
      | Some original_step \<Rightarrow>
          Inr (original_step - int (count_list (Pitch_accidental self) (CHR ''b''))
               + int (count_list (Pitch_accidental self) (CHR ''#''))))"

definition Pitch_index :: "Pitch \<Rightarrow> error + nat" where
  "Pitch_index self =
     (case index_of (Pitch_letter self) LETTERS of
        None \<Rightarrow> Inl (ValueError (Pitch_letter self # '' is not in list''))
      | Some i \<Rightarrow> Inr i)"

text \<open>
  \<^verbatim>\<open>__str__\<close>. In \<^verbatim>\<open>self.octave or ''\<close> both \<^verbatim>\<open>None\<close> and \<^verbatim>\<open>0\<close> are falsy, so an
  absent octave and the octave 0 both render as nothing.
\<close>

definition Pitch_str :: "Pitch \<Rightarrow> string" where
  "Pitch_str self =
     Pitch_letter self # Pitch_accidental self
       @ (case Pitch_octave self of None \<Rightarrow> [] | Some n \<Rightarrow> if n = 0 then [] else str_int n)"

text \<open>
  \<^verbatim>\<open>__hash__\<close> and \<^verbatim>\<open>__eq__\<close>. The built-in \<^verbatim>\<open>hash\<close> on a tuple is a parameter: all that
  is known of it is that it is a function of the tuple.
\<close>

definition Pitch_hash :: "(string \<times> char \<times> int option \<Rightarrow> int) \<Rightarrow> Pitch \<Rightarrow> int" where
  "Pitch_hash hash self = hash (Pitch_accidental self, Pitch_letter self, Pitch_octave self)"

definition Pitch_eq :: "Pitch \<Rightarrow> pyval \<Rightarrow> bool" where
  "Pitch_eq self v =
     (case v of
        PitchV value \<Rightarrow>
          Pitch_accidental self = Pitch_accidental value
          \<and> Pitch_letter self = Pitch_letter value
          \<and> Pitch_octave self = Pitch_octave value
      | _ \<Rightarrow> False)"

definition Interval_hash :: "(char \<times> int \<Rightarrow> int) \<Rightarrow> Interval \<Rightarrow> int" where
  "Interval_hash hash self = hash (Interval_accidental self, Interval_degree self)"

definition Interval_eq :: "Interval \<Rightarrow> pyval \<Rightarrow> bool dunder" where
  "Interval_eq self v =
     (case v of
        IntervalV value \<Rightarrow>
          Returned (Interval_accidental self = Interval_accidental value
                    \<and> Interval_degree self = Interval_degree value)
      | _ \<Rightarrow> NotImplemented)"

definition Interval_lt :: "Interval \<Rightarrow> pyval \<Rightarrow> error + bool dunder" where
  "Interval_lt self v =
     (case v of
        IntervalV value \<Rightarrow>
          (case Interval_step self of
             Inl e \<Rightarrow> Inl e
           | Inr a \<Rightarrow> (case Interval_step value of
                         Inl e \<Rightarrow> Inl e
                       | Inr b \<Rightarrow> Inr (Returned (a < b))))
      | _ \<Rightarrow> Inr NotImplemented)"

text \<open>\<^verbatim>\<open>self.octave or 4\<close>: \<^verbatim>\<open>None\<close> and \<^verbatim>\<open>0\<close> are both falsy.\<close>

definition octave_or_4 :: "Pitch \<Rightarrow> int" where
  "octave_or_4 self = (case Pitch_octave self of None \<Rightarrow> 4 | Some n \<Rightarrow> if n = 0 then 4 else n)"

text \<open>\<^verbatim>\<open>__lt__\<close>: the two pairs are compared as Python compares tuples.\<close>

definition Pitch_lt :: "Pitch \<Rightarrow> pyval \<Rightarrow> error + bool dunder" where
  "Pitch_lt self v =
     (case v of
        PitchV value \<Rightarrow>
          (case Pitch_step self of
             Inl e \<Rightarrow> Inl e
           | Inr a \<Rightarrow> (case Pitch_step value of
                         Inl e \<Rightarrow> Inl e
                       | Inr b \<Rightarrow>
                           Inr (Returned (octave_or_4 self < octave_or_4 value
                                          \<or> (octave_or_4 self = octave_or_4 value \<and> a < b)))))
      | _ \<Rightarrow> Inr NotImplemented)"

text \<open>
  \<^verbatim>\<open>__add__\<close>. A text on the right is first made an interval. The octave is added to
  only under \<^verbatim>\<open>if self.octave\<close>, which is false for \<^verbatim>\<open>None\<close> and for \<^verbatim>\<open>0\<close>. The new
  pitch is built from the text of letter, modifier and octave, through the constructor.
\<close>

definition add_interval :: "Pitch \<Rightarrow> Interval \<Rightarrow> error + Pitch" where
  "add_interval self value =
     (case Pitch_step self of
        Inl e \<Rightarrow> Inl e
      | Inr self_step \<Rightarrow>
     (case Interval_step value of
        Inl e \<Rightarrow> Inl e
      | Inr value_step \<Rightarrow>
     (case Pitch_index self of
        Inl e \<Rightarrow> Inl e
      | Inr self_index \<Rightarrow>
          let res_step = (self_step + value_step) mod 12;
              octave_offset = (self_step + value_step) div 12;
              res_index = (int self_index + Interval_degree value - 1) mod 7
          in (case list_item LETTERS res_index of
                Inl e \<Rightarrow> Inl e
              | Inr letter \<Rightarrow>
             (case LETTER_STEP letter of
                None \<Rightarrow> Inl (KeyError_str [letter])
              | Some letter_step \<Rightarrow>
                  (let step_diff = letter_step - res_step;
                       modifier = (if step_diff = 0 then []
                                   else if step_diff > 0 then replicate (nat step_diff) (CHR ''b'')
                                   else replicate (nat (- step_diff)) (CHR ''#''));
                       octave_str = (case Pitch_octave self of
                                       None \<Rightarrow> []
                                     | Some n \<Rightarrow> if n = 0 then [] else str_int (n + octave_offset))
                   in Pitch_init (Some (letter # modifier @ octave_str))))))))"

definition Pitch_add :: "Pitch \<Rightarrow> pyval \<Rightarrow> error + Pitch dunder" where
  "Pitch_add self v =
     (case v of
        IntervalV value \<Rightarrow> map_sum id Returned (add_interval self value)
      | StrV s \<Rightarrow> (case Interval_init (Some s) of
                    Inl e \<Rightarrow> Inl e
                  | Inr value \<Rightarrow> map_sum id Returned (add_interval self value))
      | _ \<Rightarrow> Inr NotImplemented)"

section \<open>Expressions over texts\<close>

text \<open>\<^verbatim>\<open>Interval(s).step\<close>: construction, then the property.\<close>

definition step_of_text :: "string \<Rightarrow> error + int" where
  "step_of_text s =
     (case Interval_init (Some s) of Inl e \<Rightarrow> Inl e | Inr i \<Rightarrow> Interval_step i)"

text \<open>\<^verbatim>\<open>Pitch(a) + Interval(b)\<close>: both constructions, then the addition.\<close>

definition add_texts :: "string \<Rightarrow> string \<Rightarrow> error + Pitch dunder" where
  "add_texts a b =
     (case Pitch_init (Some a) of
        Inl e \<Rightarrow> Inl e
      | Inr p \<Rightarrow> (case Interval_init (Some b) of
                    Inl e \<Rightarrow> Inl e
                  | Inr i \<Rightarrow> Pitch_add p (IntervalV i)))"

section \<open>The step algorithm as the specification words it\<close>

text \<open>
  Steps 1 to 5 of the algorithm for the semitone distance, written from the words of the
  specification and not from the code: the octave count, the folded degree, the table of
  bases, and the adjustment by quality on the perfect-eligible and on the imperfect classes.
  Where these steps name no result (the folded degree is not in the table, or the quality
  is not listed for the class) the value is \<open>None\<close>.
\<close>

definition spec_table :: "int \<Rightarrow> int option" where
  "spec_table = map_of [(1, 0), (2, 2), (3, 4), (4, 5), (5, 7), (6, 9), (7, 11), (8, 12)]"

definition spec_mod_degree :: "int \<Rightarrow> int" where
  "spec_mod_degree degree = (if degree \<le> 8 then degree else (degree - 8) mod 7)"

definition spec_step :: "char \<Rightarrow> int \<Rightarrow> int option" where
  "spec_step quality degree =
     (let octaves = degree div 7 - 1;
          mod_degree = spec_mod_degree degree
      in (case spec_table mod_degree of
            None \<Rightarrow> None
          | Some base \<Rightarrow>
              (let result = base + octaves * 12
               in if mod_degree \<in> {1, 4, 5, 8} then
                    (if quality = CHR ''P'' then Some result
                     else if quality = CHR ''A'' then Some (result + 1)
                     else if quality = CHR ''D'' then Some (result - 1)
                     else None)
                  else if mod_degree \<in> {2, 3, 6, 7} then
                    (if quality = CHR ''M'' then Some result
                     else if quality = CHR ''m'' then Some (result - 1)
                     else if quality = CHR ''A'' then Some (result + 1)
                     else if quality = CHR ''D'' then Some (result - 2)
                     else None)
                  else None)))"

section \<open>Semitone distance of an interval\<close>


text \<open>
  C1. The specification lists the distances 4, 7, 5 and 1 for \<^verbatim>\<open>M3\<close>, \<^verbatim>\<open>P5\<close>, \<^verbatim>\<open>P4\<close> and
  \<^verbatim>\<open>m2\<close>. In the code \<^verbatim>\<open>octaves = self.degree // 7 - 1\<close> is \<open>-1\<close> for every degree below 7,
  so each of the four values comes out one octave (12 semitones) lower: \<open>-8\<close>, \<open>-5\<close>, \<open>-7\<close>
  and \<open>-11\<close>.
\<close>

theorem Interval_step_simple_intervals:
  "step_of_text ''M3'' = Inr (- 8) \<and> step_of_text ''P5'' = Inr (- 5)
   \<and> step_of_text ''P4'' = Inr (- 7) \<and> step_of_text ''m2'' = Inr (- 11)"
  by code_simp





text \<open>
  C9. The specification asks for an error on a quality that its class does not list, such
  as Major on the unison. The imperfect branch of \<^verbatim>\<open>Interval.step\<close> ends in a
  \<^verbatim>\<open>raise\<close>, but the perfect-eligible branch ends in \<^verbatim>\<open>return res - 1\<close> for every
  quality other than \<^verbatim>\<open>P\<close> and \<^verbatim>\<open>A\<close>: \<^verbatim>\<open>Interval("M1").step\<close> returns \<open>-13\<close>, although
  steps 1 to 5 name no result there.
\<close>

theorem Interval_step_Major_unison:
  "Interval_init (Some ''M1'') = Inr \<lparr>Interval_accidental = CHR ''M'', Interval_degree = 1\<rparr>
   \<and> Interval_step \<lparr>Interval_accidental = CHR ''M'', Interval_degree = 1\<rparr> = Inr (- 13)
   \<and> spec_step (CHR ''M'') 1 = None"
  by code_simp

text \<open>
  C4. The interval \<^verbatim>\<open>P15\<close> is accepted by the constructor (15 mod 7 = 1). Its folded degree
  is \<open>(15 - 8) mod 7 = 0\<close>, which the table does not hold, so \<^verbatim>\<open>step\<close> raises
  \<^verbatim>\<open>KeyError\<close>; and \<^verbatim>\<open>single_octave\<close> builds the text \<^verbatim>\<open>P0\<close>, which the constructor
  rejects.
\<close>

theorem Interval_P15_step_and_single_octave_fail:
  "Interval_init (Some ''P15'') = Inr \<lparr>Interval_accidental = CHR ''P'', Interval_degree = 15\<rparr>
   \<and> Interval_step \<lparr>Interval_accidental = CHR ''P'', Interval_degree = 15\<rparr> = Inl (KeyError_int 0)
   \<and> single_octave \<lparr>Interval_accidental = CHR ''P'', Interval_degree = 15\<rparr> = Inl (ValueError (''Invalid interval '' @ quoted ''P0''))"
  by code_simp

section \<open>Reduction to one octave\<close>

lemma single_octave_simple: "Interval_degree i \<le> 8 \<Longrightarrow> single_octave i = Inr i"
  by (simp add: single_octave_def)

text \<open>
  C7. An interval of degree at most 8 is returned as it is (\<open>single_octave_simple\<close>). For
  degree 9 the code builds the degree \<open>(9 - 8) mod 7 = 1\<close>: the major ninth becomes a
  major unison, not a major second.
\<close>

theorem single_octave_degree_9:
  "Interval_init (Some ''M9'') = Inr \<lparr>Interval_accidental = CHR ''M'', Interval_degree = 9\<rparr>
   \<and> single_octave \<lparr>Interval_accidental = CHR ''M'', Interval_degree = 9\<rparr> = Inr \<lparr>Interval_accidental = CHR ''M'', Interval_degree = 1\<rparr>"
  by code_simp

section \<open>Parsing Perfect intervals\<close>






section \<open>Pitch: addition, rendering, ordering\<close>

text \<open>
  C3. With the steps of C1, \<^verbatim>\<open>Pitch("C4") + Interval("M3")\<close> has the sum of steps \<open>-8\<close>,
  hence the octave offset \<open>-1\<close>: the result is \<^verbatim>\<open>E3\<close>, which is not equal to \<^verbatim>\<open>E4\<close>.
  In the same way \<^verbatim>\<open>Pitch("C4") + Interval("m3")\<close> is \<^verbatim>\<open>Eb3\<close>, not \<^verbatim>\<open>Eb4\<close>.
\<close>

theorem Pitch_add_C4_thirds:
  "add_texts ''C4'' ''M3'' = Inr (Returned \<lparr>Pitch_letter = CHR ''E'', Pitch_accidental = [], Pitch_octave = Some 3\<rparr>)
   \<and> Pitch_init (Some ''E4'') = Inr \<lparr>Pitch_letter = CHR ''E'', Pitch_accidental = [], Pitch_octave = Some 4\<rparr>
   \<and> \<not> Pitch_eq \<lparr>Pitch_letter = CHR ''E'', Pitch_accidental = [], Pitch_octave = Some 3\<rparr> (PitchV \<lparr>Pitch_letter = CHR ''E'', Pitch_accidental = [], Pitch_octave = Some 4\<rparr>)
   \<and> add_texts ''C4'' ''m3'' = Inr (Returned \<lparr>Pitch_letter = CHR ''E'', Pitch_accidental = ''b'', Pitch_octave = Some 3\<rparr>)
   \<and> Pitch_init (Some ''Eb4'') = Inr \<lparr>Pitch_letter = CHR ''E'', Pitch_accidental = ''b'', Pitch_octave = Some 4\<rparr>
   \<and> \<not> Pitch_eq \<lparr>Pitch_letter = CHR ''E'', Pitch_accidental = ''b'', Pitch_octave = Some 3\<rparr> (PitchV \<lparr>Pitch_letter = CHR ''E'', Pitch_accidental = ''b'', Pitch_octave = Some 4\<rparr>)"
  by code_simp

text \<open>
  C5. The text \<^verbatim>\<open>C0\<close> is accepted and gives the octave 0. Rendering drops a falsy octave, so
  the pitch renders as \<^verbatim>\<open>C\<close>, whose construction has no octave and is not equal to the
  pitch rendered.
\<close>

theorem Pitch_str_roundtrip_octave_0:
  "Pitch_init (Some ''C0'') = Inr \<lparr>Pitch_letter = CHR ''C'', Pitch_accidental = [], Pitch_octave = Some 0\<rparr>
   \<and> Pitch_str \<lparr>Pitch_letter = CHR ''C'', Pitch_accidental = [], Pitch_octave = Some 0\<rparr> = ''C''
   \<and> Pitch_init (Some ''C'') = Inr \<lparr>Pitch_letter = CHR ''C'', Pitch_accidental = [], Pitch_octave = None\<rparr>
   \<and> \<not> Pitch_eq \<lparr>Pitch_letter = CHR ''C'', Pitch_accidental = [], Pitch_octave = None\<rparr> (PitchV \<lparr>Pitch_letter = CHR ''C'', Pitch_accidental = [], Pitch_octave = Some 0\<rparr>)"
  by code_simp

text \<open>
  C6. \<^verbatim>\<open>C0\<close> and \<^verbatim>\<open>C1\<close> have the octaves 0 and 1 and both the step 0, so the pair of
  \<^verbatim>\<open>C0\<close> is below that of \<^verbatim>\<open>C1\<close> when 4 stands in only for an absent octave. The code
  replaces the octave 0 by 4 as well, compares \<open>(4, 0)\<close> with \<open>(1, 0)\<close>, and answers that
  \<^verbatim>\<open>C0\<close> is not less than \<^verbatim>\<open>C1\<close>.
\<close>

theorem Pitch_lt_octave_0:
  "Pitch_init (Some ''C0'') = Inr \<lparr>Pitch_letter = CHR ''C'', Pitch_accidental = [], Pitch_octave = Some 0\<rparr>
   \<and> Pitch_init (Some ''C1'') = Inr \<lparr>Pitch_letter = CHR ''C'', Pitch_accidental = [], Pitch_octave = Some 1\<rparr>
   \<and> Pitch_step \<lparr>Pitch_letter = CHR ''C'', Pitch_accidental = [], Pitch_octave = Some 0\<rparr> = Inr 0 \<and> Pitch_step \<lparr>Pitch_letter = CHR ''C'', Pitch_accidental = [], Pitch_octave = Some 1\<rparr> = Inr 0
   \<and> Pitch_lt \<lparr>Pitch_letter = CHR ''C'', Pitch_accidental = [], Pitch_octave = Some 0\<rparr> (PitchV \<lparr>Pitch_letter = CHR ''C'', Pitch_accidental = [], Pitch_octave = Some 1\<rparr>) = Inr (Returned False)"
  by code_simp

section \<open>Hash and equality\<close>

text \<open>
  C10. For both classes the hash is the built-in hash of the tuple of the very fields that
  equality compares, so two equal values have the same hash, whatever function of the
  tuple the built-in hash is.
\<close>

theorem hash_consistent_with_eq:
  "(Pitch_eq x (PitchV y) \<longrightarrow> Pitch_hash h x = Pitch_hash h y)
   \<and> Pitch_hash h x = h (Pitch_accidental x, Pitch_letter x, Pitch_octave x)
   \<and> (Pitch_eq x (PitchV y) \<longleftrightarrow>
        (Pitch_accidental x, Pitch_letter x, Pitch_octave x)
        = (Pitch_accidental y, Pitch_letter y, Pitch_octave y))
   \<and> (Interval_eq a (IntervalV b) = Returned True \<longrightarrow> Interval_hash g a = Interval_hash g b)
   \<and> Interval_hash g a = g (Interval_accidental a, Interval_degree a)
   \<and> (Interval_eq a (IntervalV b) = Returned True \<longleftrightarrow>
        (Interval_accidental a, Interval_degree a) = (Interval_accidental b, Interval_degree b))"
  by (auto simp add: Pitch_eq_def Pitch_hash_def Interval_eq_def Interval_hash_def)

theorem hash_consistent_with_eq_witness:
  "Pitch_init (Some ''e4'') = Inr \<lparr>Pitch_letter = CHR ''E'', Pitch_accidental = [], Pitch_octave = Some 4\<rparr>
   \<and> Pitch_init (Some ''E4'') = Inr \<lparr>Pitch_letter = CHR ''E'', Pitch_accidental = [], Pitch_octave = Some 4\<rparr>
   \<and> Pitch_eq \<lparr>Pitch_letter = CHR ''E'', Pitch_accidental = [], Pitch_octave = Some 4\<rparr>
        (PitchV \<lparr>Pitch_letter = CHR ''E'', Pitch_accidental = [], Pitch_octave = Some 4\<rparr>)
   \<and> Pitch_hash (\<lambda>(a, l, oct). int (length a) + int (of_char l))
        \<lparr>Pitch_letter = CHR ''E'', Pitch_accidental = [], Pitch_octave = Some 4\<rparr>
     = Pitch_hash (\<lambda>(a, l, oct). int (length a) + int (of_char l))
         \<lparr>Pitch_letter = CHR ''E'', Pitch_accidental = [], Pitch_octave = Some 4\<rparr>
   \<and> Interval_eq \<lparr>Interval_accidental = CHR ''M'', Interval_degree = 3\<rparr>
        (IntervalV \<lparr>Interval_accidental = CHR ''M'', Interval_degree = 3\<rparr>) = Returned True
   \<and> Interval_hash (\<lambda>(q, d). d + int (of_char q))
        \<lparr>Interval_accidental = CHR ''M'', Interval_degree = 3\<rparr>
     = Interval_hash (\<lambda>(q, d). d + int (of_char q))
         \<lparr>Interval_accidental = CHR ''M'', Interval_degree = 3\<rparr>"
  using hash_consistent_with_eq
    [of "\<lparr>Pitch_letter = CHR ''E'', Pitch_accidental = [], Pitch_octave = Some 4\<rparr>"
        "\<lparr>Pitch_letter = CHR ''E'', Pitch_accidental = [], Pitch_octave = Some 4\<rparr>"
        "\<lambda>(a, l, oct). int (length a) + int (of_char l)"
        "\<lparr>Interval_accidental = CHR ''M'', Interval_degree = 3\<rparr>"
        "\<lparr>Interval_accidental = CHR ''M'', Interval_degree = 3\<rparr>"
        "\<lambda>(q, d). d + int (of_char q)"]
  by (simp add: Pitch_eq_def Interval_eq_def Pitch_init_def Pitch_parse_def upper_def
        int_of_str_def digit_val_def)

end
